theory Spec2Isabelle
  imports Main "HOL-Library.AList"
begin

section \<open>The reset-password route: data model\<close>

text \<open>
  The route module
  \<^verbatim>\<open>app/routes/_auth+/reset-password.tsx\<close> exports \<^verbatim>\<open>handleVerification\<close>,
  \<^verbatim>\<open>loader\<close> and \<^verbatim>\<open>action\<close>. They are embedded below as functions that thread
  an explicit world (the account store and the trace of collaborator calls) and return
  either a thrown error or a response.
\<close>

text \<open>A thrown JavaScript \<^verbatim>\<open>Error\<close>, carrying its message.\<close>

datatype js_error = Error string

text \<open>
  The columns the handler selects from an account row:
  \<^verbatim>\<open>select: { email: true, username: true }\<close>.
\<close>

record user =
  email :: string
  username :: string

text \<open>
  A session is the key/value data of a cookie session. Its \<^verbatim>\<open>set\<close> replaces the
  value of a key that is present and appends a key that is not, which is
  \<^const>\<open>AList.update\<close>; a lookup is \<^const>\<open>map_of\<close>.
\<close>

type_synonym session = "(string \<times> string) list"

text \<open>The calls made to the collaborators (account store, session storage), in order.\<close>

datatype event =
    UserFindFirst string
  | GetSession "string option"
  | SessionSet string string
  | CommitSession session

record world =
  users :: "user list"
  trace :: "event list"

text \<open>
  The part of a \<^verbatim>\<open>Request\<close> the route reads: its headers (names in lower case, as
  the \<^verbatim>\<open>Headers\<close> object keeps them) and its form data.
\<close>

record request =
  req_headers :: "string \<rightharpoonup> string"
  req_formData :: "(string \<times> string) list"

text \<open>
  A value of a submission's error map is a message or a list of messages
  (\<^verbatim>\<open>Record<string, string | string[]>\<close>).
\<close>

datatype error_value = ErrString string | ErrList "string list"

text \<open>
  A parsed form submission. The field \<^verbatim>\<open>value\<close> of the source is
  \<open>submission_value\<close> here; it is absent (\<open>None\<close>) when validation did not succeed.
\<close>

record 'v submission =
  intent :: string
  payload :: "(string \<times> string) list"
  error :: "(string \<times> error_value) list"
  submission_value :: "'v option"

text \<open>
  The validated value handed to \<^verbatim>\<open>handleVerification\<close>. Only \<^verbatim>\<open>target\<close> is read;
  the other fields of the verify schema live in the record's extension.
\<close>

record verify_value =
  target :: string

text \<open>The validated value of the reset-password form.\<close>

record reset_value =
  password :: string
  confirmPassword :: string

text \<open>The JSON bodies \<^verbatim>\<open>{ status, submission }\<close> and \<^verbatim>\<open>{ resetPasswordUsername }\<close>.\<close>

datatype 'v action_data = ActionData (status_field: string) (submission_field: "'v submission")

datatype loader_data = LoaderData (resetPasswordUsername: string)

record 'b response =
  status :: nat
  headers :: "(string \<times> string) list"
  body :: "'b option"

text \<open>
  The session storage collaborator \<^verbatim>\<open>verifySessionStorage\<close>: parsing a cookie header
  into a session and serialising a session into a \<^verbatim>\<open>set-cookie\<close> value. It is a
  parameter of the handler.
\<close>

record session_storage =
  getSession :: "string option \<Rightarrow> session"
  commitSession :: "session \<Rightarrow> string"

section \<open>Framework helpers\<close>

text \<open>
  \<^verbatim>\<open>json(data, init)\<close>: status 200 unless \<^verbatim>\<open>init.status\<close> is given, a JSON
  content type, the data as body.
\<close>

definition json :: "'b \<Rightarrow> nat option \<Rightarrow> 'b response" where
  "json data init_status =
     \<lparr>status = (case init_status of None \<Rightarrow> 200 | Some s \<Rightarrow> s),
      headers = [(''content-type'', ''application/json; charset=utf-8'')],
      body = Some data\<rparr>"

text \<open>
  \<^verbatim>\<open>redirect(url, init)\<close>: status 302, the headers of \<^verbatim>\<open>init\<close> with
  \<^verbatim>\<open>Location\<close> set to the url, no body.
\<close>

definition redirect :: "string \<Rightarrow> (string \<times> string) list \<Rightarrow> 'b response" where
  "redirect url init_headers =
     \<lparr>status = 302,
      headers = AList.update ''location'' url init_headers,
      body = None\<rparr>"

text \<open>
  Modelled from the spec: \<^verbatim>\<open>invariant\<close> of \<^verbatim>\<open>~/utils/misc.tsx\<close> is not among the
  sources. The spec describes a missing submission value as a programming-invariant
  violation that "halts processing immediately (assertion-style failure)": an absent
  value throws an error with the message given, a present one is passed on.
\<close>

definition invariant :: "'a option \<Rightarrow> string \<Rightarrow> js_error + 'a" where
  "invariant condition message =
     (case condition of None \<Rightarrow> Inl (Error message) | Some v \<Rightarrow> Inr v)"

section \<open>Collaborator calls\<close>

text \<open>
  \<^verbatim>\<open>prisma.user.findFirst({ where: { OR: [{ email: target }, { username: target }] }, ... })\<close>:
  the first row of the store whose email or username equals the target. The call reads
  the store and is recorded in the trace.
\<close>

definition user_matches :: "string \<Rightarrow> 'a user_scheme \<Rightarrow> bool" where
  "user_matches tgt u = (email u = tgt \<or> username u = tgt)"

definition user_findFirst :: "string \<Rightarrow> world \<Rightarrow> user option \<times> world" where
  "user_findFirst tgt w =
     (find (user_matches tgt) (users w), w\<lparr>trace := trace w @ [UserFindFirst tgt]\<rparr>)"

definition storage_getSession ::
  "session_storage \<Rightarrow> string option \<Rightarrow> world \<Rightarrow> session \<times> world" where
  "storage_getSession storage cookie w =
     (getSession storage cookie, w\<lparr>trace := trace w @ [GetSession cookie]\<rparr>)"

definition session_set :: "string \<Rightarrow> string \<Rightarrow> session \<Rightarrow> world \<Rightarrow> session \<times> world" where
  "session_set k v s w =
     (AList.update k v s, w\<lparr>trace := trace w @ [SessionSet k v]\<rparr>)"

definition storage_commitSession ::
  "session_storage \<Rightarrow> session \<Rightarrow> world \<Rightarrow> string \<times> world" where
  "storage_commitSession storage s w =
     (commitSession storage s, w\<lparr>trace := trace w @ [CommitSession s]\<rparr>)"

section \<open>The verification handler\<close>

definition resetPasswordUsernameSessionKey :: string where
  "resetPasswordUsernameSessionKey = ''resetPasswordUsername''"

text \<open>
  \<^verbatim>\<open>handleVerification({ request, submission })\<close>. The result is the thrown error or
  the response, the submission object as the call leaves it, and the world.
\<close>

definition handleVerification ::
  "session_storage \<Rightarrow> request \<Rightarrow> ('a verify_value_scheme) submission \<Rightarrow> world \<Rightarrow>
   (js_error + ('a verify_value_scheme) action_data response)
     \<times> ('a verify_value_scheme) submission \<times> world" where
  "handleVerification verifySessionStorage request submission w =
     (case invariant (submission_value submission)
             ''submission.value should be defined by now'' of
        Inl e \<Rightarrow> (Inl e, submission, w)
      | Inr v \<Rightarrow>
          (let tgt = target v;
               (found, w1) = user_findFirst tgt w
           in case found of
                None \<Rightarrow>
                  (let submission' =
                         submission\<lparr>error :=
                           AList.update ''code'' (ErrString ''Invalid code'') (error submission)\<rparr>
                   in (Inr (json (ActionData ''error'' submission') (Some 400)),
                       submission', w1))
              | Some u \<Rightarrow>
                  (let (verifySession, w2) =
                         storage_getSession verifySessionStorage
                           (req_headers request ''cookie'') w1;
                       (verifySession', w3) =
                         session_set resetPasswordUsernameSessionKey (username u)
                           verifySession w2;
                       (cookie, w4) =
                         storage_commitSession verifySessionStorage verifySession' w3
                   in (Inr (redirect ''/reset-password'' [(''set-cookie'', cookie)]),
                       submission, w4))))"

section \<open>Loader and action\<close>

definition loader :: "world \<Rightarrow> loader_data response \<times> world" where
  "loader w = (json (LoaderData ''get this from the session'') None, w)"

text \<open>
  \<^verbatim>\<open>action({ request })\<close>. The form parser (\<^verbatim>\<open>parse\<close> with the reset-password
  schema) is a parameter. It either throws or returns a submission; \<^verbatim>\<open>action\<close> calls
  it outside any \<^verbatim>\<open>try\<close>, so an error it throws is thrown by \<^verbatim>\<open>action\<close>.
  \<^verbatim>\<open>!submission.value?.password\<close> holds when the value is absent or its password is
  the empty string.
\<close>

definition action ::
  "((string \<times> string) list \<Rightarrow> js_error + ('a reset_value_scheme) submission) \<Rightarrow>
   request \<Rightarrow> world \<Rightarrow>
   (js_error + ('a reset_value_scheme) action_data response) \<times> world" where
  "action parse request w =
     (let formData = req_formData request
      in case parse formData of
           Inl e \<Rightarrow> (Inl e, w)
         | Inr submission \<Rightarrow>
             if intent submission \<noteq> ''submit''
             then (Inr (json (ActionData ''idle'' submission) None), w)
             else if (case submission_value submission of
                        None \<Rightarrow> True
                      | Some v \<Rightarrow> password v = [])
             then (Inr (json (ActionData ''error'' submission) (Some 400)), w)
             else (Inl (Error ''This has not yet been implemented''), w))"

section \<open>Observations on a run\<close>

text \<open>
  The collaborator calls a run added to the trace, the account a submission's target
  resolves to, and whether it resolves to one.
\<close>

definition new_events :: "world \<Rightarrow> world \<Rightarrow> event list" where
  "new_events w w' = drop (length (trace w)) (trace w')"

definition resolved_account ::
  "('a verify_value_scheme) submission \<Rightarrow> world \<Rightarrow> user option" where
  "resolved_account sub w =
     (case submission_value sub of
        None \<Rightarrow> None
      | Some v \<Rightarrow> find (user_matches (target v)) (users w))"

definition target_resolves :: "('a verify_value_scheme) submission \<Rightarrow> world \<Rightarrow> bool" where
  "target_resolves sub w =
     (case submission_value sub of
        None \<Rightarrow> False
      | Some v \<Rightarrow> find (user_matches (target v)) (users w) \<noteq> None)"

section \<open>Sample collaborators and scenario data\<close>

text \<open>
  Modelled from the spec: \<^verbatim>\<open>verifySessionStorage\<close> of
  \<^verbatim>\<open>~/utils/verification.server.ts\<close> is not among the sources. The spec asks of the
  session-storage collaborator "(a) parsing a session from a cookie header (returning an
  empty/new session if absent or invalid), (b) setting a key, (c) committing/serializing
  the session into a cookie-header value". The storage below serialises a session as
  text: every character of a key or a value is preceded by a dot, and a semicolon ends
  the key and the value. Signing and expiry are left to the library and are not
  modelled.
\<close>

fun enc_str :: "string \<Rightarrow> string" where
  "enc_str [] = '';''"
| "enc_str (c # cs) = CHR ''.'' # c # enc_str cs"

fun dec_str :: "string \<Rightarrow> (string \<times> string) option" where
  "dec_str [] = None"
| "dec_str [t] = (if t = CHR '';'' then Some ([], []) else None)"
| "dec_str (t # c # r) =
     (if t = CHR '';'' then Some ([], c # r)
      else if t = CHR ''.'' then map_option (\<lambda>(s, r'). (c # s, r')) (dec_str r)
      else None)"

lemma dec_str_shorter: "dec_str xs = Some (s, r) \<Longrightarrow> length r < length xs"
  by (induction xs arbitrary: s r rule: dec_str.induct)
     (auto split: if_splits)

fun enc_session :: "session \<Rightarrow> string" where
  "enc_session [] = []"
| "enc_session ((k, v) # kvs) = enc_str k @ enc_str v @ enc_session kvs"

function dec_session :: "string \<Rightarrow> session option" where
  "dec_session [] = Some []"
| "dec_session (x # xs) =
     (case dec_str (x # xs) of
        None \<Rightarrow> None
      | Some (k, r) \<Rightarrow>
          (case dec_str r of
             None \<Rightarrow> None
           | Some (v, r') \<Rightarrow> map_option ((#) (k, v)) (dec_session r')))"
  by pat_completeness auto

termination
proof (relation "measure length")
  show "wf (measure length)" by simp
next
  fix x xs k r v r' and p q :: "string \<times> string"
  assume "dec_str (x # xs) = Some p" "(k, r) = p" "dec_str r = Some q" "(v, r') = q"
  then have "length r' < length r" "length r < length (x # xs)"
    using dec_str_shorter by metis+
  then show "(r', x # xs) \<in> measure length" by simp
qed

definition plainSessionStorage :: session_storage where
  "plainSessionStorage =
     \<lparr>getSession = (\<lambda>cookie. case cookie of
                       None \<Rightarrow> []
                     | Some c \<Rightarrow> (case dec_session c of None \<Rightarrow> [] | Some s \<Rightarrow> s)),
      commitSession = enc_session\<rparr>"

text \<open>
  The forms of the scenarios for \<^verbatim>\<open>action\<close>, and a parser for them. The parser
  instantiates the parser parameter of \<^verbatim>\<open>action\<close> in the scenarios: it holds the
  submission that parsing gives for each of the four forms, and reports every other form
  as an error. Two passwords that differ fail the refinement of the schema, with the
  message \<^verbatim>\<open>The passwords did not match\<close> at the path \<^verbatim>\<open>confirmPassword\<close>; a
  second \<^verbatim>\<open>__intent__\<close> entry after a field validation intent makes the parser throw.
  \<^verbatim>\<open>passwordSchema\<close> (\<^verbatim>\<open>~/utils/user-validation.ts\<close>, not among the sources) is taken
  to accept both passwords of the forms.
\<close>

definition validateForm :: "(string \<times> string) list" where
  "validateForm =
     [(''__intent__'', ''validate/confirmPassword''),
      (''password'', ''correct horse''), (''confirmPassword'', ''battery'')]"

definition mismatchForm :: "(string \<times> string) list" where
  "mismatchForm = [(''password'', ''correct horse''), (''confirmPassword'', ''battery'')]"

definition validForm :: "(string \<times> string) list" where
  "validForm = [(''password'', ''correct horse''), (''confirmPassword'', ''correct horse'')]"

definition twoIntentsForm :: "(string \<times> string) list" where
  "twoIntentsForm =
     [(''__intent__'', ''validate/password''), (''__intent__'', ''submit''),
      (''password'', ''correct horse''), (''confirmPassword'', ''correct horse'')]"

definition scenarioParse :: "(string \<times> string) list \<Rightarrow> js_error + reset_value submission" where
  "scenarioParse formData =
     (if formData = validateForm then
        Inr \<lparr>intent = ''validate/confirmPassword'',
             payload = mismatchForm,
             error = [(''confirmPassword'', ErrList [''The passwords did not match''])],
             submission_value = None\<rparr>
      else if formData = mismatchForm then
        Inr \<lparr>intent = ''submit'',
             payload = mismatchForm,
             error = [(''confirmPassword'', ErrList [''The passwords did not match''])],
             submission_value = None\<rparr>
      else if formData = validForm then
        Inr \<lparr>intent = ''submit'',
             payload = validForm,
             error = [],
             submission_value =
               Some \<lparr>password = ''correct horse'', confirmPassword = ''correct horse''\<rparr>\<rparr>
      else if formData = twoIntentsForm then
        Inl (Error ''The intent could only be set on a button'')
      else Inl (Error ''not a form of the scenarios''))"

text \<open>
  The data of the spec's scenarios: a store holding the account of alice, a verified
  submission for a target, a request carrying a cookie header, a request carrying form
  data.
\<close>

definition aliceStore :: world where
  "aliceStore = \<lparr>users = [\<lparr>email = ''alice@example.com'', username = ''alice''\<rparr>], trace = []\<rparr>"

definition verifiedSubmission :: "string \<Rightarrow> verify_value submission" where
  "verifiedSubmission tgt =
     \<lparr>intent = ''submit'', payload = [(''target'', tgt)], error = [],
      submission_value = Some \<lparr>target = tgt\<rparr>\<rparr>"

definition requestWithCookie :: "string option \<Rightarrow> request" where
  "requestWithCookie c = \<lparr>req_headers = (\<lambda>h. if h = ''cookie'' then c else None), req_formData = []\<rparr>"

definition formRequest :: "(string \<times> string) list \<Rightarrow> request" where
  "formRequest formData = \<lparr>req_headers = Map.empty, req_formData = formData\<rparr>"

section \<open>Properties of the sample session storage\<close>

lemma dec_str_enc_str: "dec_str (enc_str s @ r) = Some (s, r)"
proof (induction s)
  case Nil
  show ?case by (cases r) simp_all
next
  case (Cons c cs)
  then show ?case by simp
qed

lemma enc_str_not_Nil: "enc_str s \<noteq> []"
  by (cases s) simp_all

lemma dec_session_enc_session: "dec_session (enc_session s) = Some s"
proof (induction s)
  case Nil
  show ?case by simp
next
  case (Cons kv kvs)
  obtain k v where kv: "kv = (k, v)" by (cases kv)
  obtain y ys where e: "enc_str k @ enc_str v @ enc_session kvs = y # ys"
    using enc_str_not_Nil [of k] by (cases "enc_str k @ enc_str v @ enc_session kvs") auto
  have "dec_session (y # ys) = Some ((k, v) # kvs)"
    unfolding dec_session.simps
    using Cons.IH dec_str_enc_str [of k "enc_str v @ enc_session kvs"]
          dec_str_enc_str [of v "enc_session kvs"]
    by (simp add: e [symmetric])
  then show ?case by (simp add: kv e)
qed

lemma plainSessionStorage_roundtrip:
  "getSession plainSessionStorage (Some (commitSession plainSessionStorage s)) = s"
  by (simp add: plainSessionStorage_def dec_session_enc_session)

section \<open>The three paths of the verification handler\<close>

lemma new_events_append [simp]: "new_events w (w\<lparr>trace := trace w @ evs\<rparr>) = evs"
  by (simp add: new_events_def)

lemma new_events_same [simp]: "new_events w w = []"
  by (simp add: new_events_def)

lemma handleVerification_absent:
  "submission_value sub = None \<Longrightarrow>
   handleVerification st req sub w =
     (Inl (Error ''submission.value should be defined by now''), sub, w)"
  by (simp add: handleVerification_def invariant_def)

lemma handleVerification_not_found:
  "submission_value sub = Some v \<Longrightarrow> find (user_matches (target v)) (users w) = None \<Longrightarrow>
   handleVerification st req sub w =
     (Inr (json (ActionData ''error''
             (sub\<lparr>error := AList.update ''code'' (ErrString ''Invalid code'') (error sub)\<rparr>))
           (Some 400)),
      sub\<lparr>error := AList.update ''code'' (ErrString ''Invalid code'') (error sub)\<rparr>,
      w\<lparr>trace := trace w @ [UserFindFirst (target v)]\<rparr>)"
  by (simp add: handleVerification_def invariant_def user_findFirst_def Let_def)

lemma handleVerification_found:
  "submission_value sub = Some v \<Longrightarrow> find (user_matches (target v)) (users w) = Some u \<Longrightarrow>
   handleVerification st req sub w =
     (Inr (redirect ''/reset-password''
             [(''set-cookie'',
               commitSession st
                 (AList.update resetPasswordUsernameSessionKey (username u)
                    (getSession st (req_headers req ''cookie''))))]),
      sub,
      w\<lparr>trace := trace w @
           [UserFindFirst (target v),
            GetSession (req_headers req ''cookie''),
            SessionSet resetPasswordUsernameSessionKey (username u),
            CommitSession
              (AList.update resetPasswordUsernameSessionKey (username u)
                 (getSession st (req_headers req ''cookie'')))]\<rparr>)"
  by (simp add: handleVerification_def invariant_def user_findFirst_def
        storage_getSession_def session_set_def storage_commitSession_def)

lemma find_unique_match:
  "filter P xs = [u] \<Longrightarrow> find P xs = Some u"
  by (induction xs) (auto split: if_splits simp: filter_empty_conv find_None_iff)

lemma find_matches_None:
  "\<forall>u\<in>set (users w). email u \<noteq> tgt \<and> username u \<noteq> tgt \<Longrightarrow>
   find (user_matches tgt) (users w) = None"
  by (simp add: find_None_iff user_matches_def)

lemma aliceStore_find_alice:
  "find (user_matches ''alice'') (users aliceStore)
     = Some \<lparr>email = ''alice@example.com'', username = ''alice''\<rparr>"
  by (simp add: aliceStore_def user_matches_def)

lemma aliceStore_find_ghost:
  "find (user_matches ''ghost@example.com'') (users aliceStore) = None"
  by (simp add: aliceStore_def user_matches_def)

lemma verifiedSubmission_value:
  "submission_value (verifiedSubmission t) = Some \<lparr>target = t\<rparr>"
  by (simp add: verifiedSubmission_def)

text \<open>An error thrown by the parser is thrown by \<^verbatim>\<open>action\<close>, with the world unchanged.\<close>

lemma action_parse_throws:
  "parse (req_formData req) = Inl e \<Longrightarrow> action parse req w = (Inl e, w)"
  by (simp add: action_def Let_def)

lemma action_two_intents:
  "action scenarioParse (formRequest twoIntentsForm) aliceStore =
     (Inl (Error ''The intent could only be set on a button''), aliceStore)"
  by (rule action_parse_throws)
     (simp add: scenarioParse_def formRequest_def twoIntentsForm_def validateForm_def
        mismatchForm_def validForm_def)

section \<open>Claims\<close>

text \<open>
  C1. For every verified submission whose target matches exactly one account of the
  store, by its email or by its username, \<^verbatim>\<open>handleVerification\<close> returns a
  redirect (status 302) to \<^verbatim>\<open>/reset-password\<close> carrying a \<^verbatim>\<open>set-cookie\<close>
  header, and the committed session, when the session storage parses it back, binds
  \<^verbatim>\<open>resetPasswordUsername\<close> to that account's username. The session storage is
  assumed to return, for a cookie it committed, a session with the same bindings.
\<close>

theorem handleVerification_success:
  assumes val: "submission_value sub = Some v"
      and one: "filter (\<lambda>u. email u = target v \<or> username u = target v) (users w) = [u]"
      and rt: "\<forall>s. map_of (getSession st (Some (commitSession st s))) = map_of s"
      and run: "handleVerification st req sub w = (res, sub', w')"
  shows "\<exists>c. res = Inr \<lparr>status = 302,
                        headers = [(''set-cookie'', c), (''location'', ''/reset-password'')],
                        body = None\<rparr>
           \<and> map_of (getSession st (Some c)) ''resetPasswordUsername'' = Some (username u)"
proof -
  have "user_matches (target v) = (\<lambda>u::user. email u = target v \<or> username u = target v)"
    by (simp add: fun_eq_iff user_matches_def)
  then have "filter (user_matches (target v)) (users w) = [u]"
    using one by simp
  then have f: "find (user_matches (target v)) (users w) = Some u"
    by (rule find_unique_match)
  let ?s = "AList.update resetPasswordUsernameSessionKey (username u)
              (getSession st (req_headers req ''cookie''))"
  have res: "res = Inr (redirect ''/reset-password'' [(''set-cookie'', commitSession st ?s)])"
    using handleVerification_found [OF val f, of st req] run by simp
  have "map_of (getSession st (Some (commitSession st ?s))) = map_of ?s"
    using rt by blast
  then have "map_of (getSession st (Some (commitSession st ?s))) ''resetPasswordUsername''
               = Some (username u)"
    by (simp add: update_conv' resetPasswordUsernameSessionKey_def)
  moreover have "res = Inr \<lparr>status = 302,
        headers = [(''set-cookie'', commitSession st ?s), (''location'', ''/reset-password'')],
        body = None\<rparr>"
    using res by (simp add: redirect_def)
  ultimately show ?thesis by blast
qed

text \<open>
  Scenarios A and C of the spec: the store holds alice; the target is her email, or her
  username. Both redirect, and the cookie decodes to her username.
\<close>

theorem handleVerification_success_witness:
  "(\<exists>c. fst (handleVerification plainSessionStorage (requestWithCookie None)
              (verifiedSubmission ''alice@example.com'') aliceStore) =
          Inr \<lparr>status = 302,
               headers = [(''set-cookie'', c), (''location'', ''/reset-password'')],
               body = None\<rparr>
        \<and> map_of (getSession plainSessionStorage (Some c)) ''resetPasswordUsername''
            = Some ''alice'')
   \<and> (\<exists>c. fst (handleVerification plainSessionStorage (requestWithCookie None)
              (verifiedSubmission ''alice'') aliceStore) =
          Inr \<lparr>status = 302,
               headers = [(''set-cookie'', c), (''location'', ''/reset-password'')],
               body = None\<rparr>
        \<and> map_of (getSession plainSessionStorage (Some c)) ''resetPasswordUsername''
            = Some ''alice'')"
proof -
  let ?alice = "\<lparr>email = ''alice@example.com'', username = ''alice''\<rparr>"
  have rt: "\<forall>s. map_of (getSession plainSessionStorage
                (Some (commitSession plainSessionStorage s))) = map_of s"
    by (simp add: plainSessionStorage_roundtrip)
  have one: "\<And>t. t = ''alice@example.com'' \<or> t = ''alice'' \<Longrightarrow>
      filter (\<lambda>u. email u = target \<lparr>target = t\<rparr> \<or> username u = target \<lparr>target = t\<rparr>)
        (users aliceStore) = [?alice]"
    by (auto simp: aliceStore_def)
  have val: "\<And>t. submission_value (verifiedSubmission t) = Some \<lparr>target = t\<rparr>"
    by (simp add: verifiedSubmission_def)
  have "\<And>t. t = ''alice@example.com'' \<or> t = ''alice'' \<Longrightarrow>
    \<exists>c. fst (handleVerification plainSessionStorage (requestWithCookie None)
              (verifiedSubmission t) aliceStore) =
          Inr \<lparr>status = 302,
               headers = [(''set-cookie'', c), (''location'', ''/reset-password'')],
               body = None\<rparr>
        \<and> map_of (getSession plainSessionStorage (Some c)) ''resetPasswordUsername''
            = Some ''alice''"
  proof -
    fix t :: string assume t: "t = ''alice@example.com'' \<or> t = ''alice''"
    obtain res sub' w' where run:
      "handleVerification plainSessionStorage (requestWithCookie None)
         (verifiedSubmission t) aliceStore = (res, sub', w')"
      by (metis prod_cases3)
    from handleVerification_success [OF val one [OF t] rt run]
    show "\<exists>c. fst (handleVerification plainSessionStorage (requestWithCookie None)
              (verifiedSubmission t) aliceStore) =
          Inr \<lparr>status = 302,
               headers = [(''set-cookie'', c), (''location'', ''/reset-password'')],
               body = None\<rparr>
        \<and> map_of (getSession plainSessionStorage (Some c)) ''resetPasswordUsername''
            = Some ''alice''"
      using run by simp
  qed
  then show ?thesis by simp
qed

text \<open>
  C2. For every verified submission whose target matches no account by email or by
  username, \<^verbatim>\<open>handleVerification\<close> returns status 400 with the body
  \<^verbatim>\<open>{ status: 'error', submission }\<close>, the submission's error map binds
  \<^verbatim>\<open>code\<close> to the generic message \<^verbatim>\<open>Invalid code\<close> (the same text whatever
  the target and the store are), and the response has no \<^verbatim>\<open>set-cookie\<close> header.
\<close>

theorem handleVerification_unknown_target:
  assumes val: "submission_value sub = Some v"
      and none: "\<forall>u\<in>set (users w). email u \<noteq> target v \<and> username u \<noteq> target v"
      and run: "handleVerification st req sub w = (res, sub', w')"
  shows "\<exists>r. res = Inr r \<and> status r = 400
           \<and> body r = Some (ActionData ''error'' sub')
           \<and> map_of (error sub') ''code'' = Some (ErrString ''Invalid code'')
           \<and> map_of (headers r) ''set-cookie'' = None"
proof -
  have f: "find (user_matches (target v)) (users w) = None"
    using none by (rule find_matches_None)
  show ?thesis
    using handleVerification_not_found [OF val f, of st req] run
    by (auto simp: json_def update_conv')
qed

text \<open>
  Scenario B of the spec: the target \<^verbatim>\<open>ghost@example.com\<close> with a store that
  holds only alice.
\<close>

theorem handleVerification_unknown_target_witness:
  "\<exists>r. fst (handleVerification plainSessionStorage (requestWithCookie None)
             (verifiedSubmission ''ghost@example.com'') aliceStore) = Inr r
       \<and> status r = 400
       \<and> body r = Some (ActionData ''error''
            ((verifiedSubmission ''ghost@example.com'')
               \<lparr>error := [(''code'', ErrString ''Invalid code'')]\<rparr>))
       \<and> map_of (headers r) ''set-cookie'' = None"
proof -
  have val: "submission_value (verifiedSubmission ''ghost@example.com'')
               = Some \<lparr>target = ''ghost@example.com''\<rparr>"
    by (simp add: verifiedSubmission_def)
  have none: "\<forall>u\<in>set (users aliceStore).
      email u \<noteq> target \<lparr>target = ''ghost@example.com''\<rparr> \<and>
      username u \<noteq> target \<lparr>target = ''ghost@example.com''\<rparr>"
    by (simp add: aliceStore_def)
  obtain res sub' w' where run:
    "handleVerification plainSessionStorage (requestWithCookie None)
       (verifiedSubmission ''ghost@example.com'') aliceStore = (res, sub', w')"
    by (metis prod_cases3)
  have sub': "sub' = (verifiedSubmission ''ghost@example.com'')
                        \<lparr>error := [(''code'', ErrString ''Invalid code'')]\<rparr>"
    using run
    by (simp add: handleVerification_def invariant_def user_findFirst_def Let_def
          verifiedSubmission_def aliceStore_def user_matches_def)
  from handleVerification_unknown_target [OF val none run]
  show ?thesis using run sub' by auto
qed

text \<open>
  C3. In every run of \<^verbatim>\<open>handleVerification\<close>, the following holds if and only if
  the submission's target resolved to an account of the store: the handler set
  \<^verbatim>\<open>resetPasswordUsername\<close> to that account's username, committed a session that
  binds the key to that username, and the response carries as its \<^verbatim>\<open>set-cookie\<close>
  header the cookie of that committed session. A session is set, loaded or committed,
  and a \<^verbatim>\<open>set-cookie\<close> header is sent, only then: the only key ever set is
  \<^verbatim>\<open>resetPasswordUsername\<close>, to the username of the resolved account; every
  committed session binds that key to that username; and a \<^verbatim>\<open>set-cookie\<close> header
  is always the cookie of a session committed in the run.
\<close>

theorem session_iff_resolved:
  assumes run: "handleVerification st req sub w = (res, sub', w')"
  shows "((\<exists>u s r. resolved_account sub w = Some u
              \<and> SessionSet ''resetPasswordUsername'' (username u) \<in> set (new_events w w')
              \<and> CommitSession s \<in> set (new_events w w')
              \<and> map_of s ''resetPasswordUsername'' = Some (username u)
              \<and> res = Inr r
              \<and> map_of (headers r) ''set-cookie'' = Some (commitSession st s))
            \<longleftrightarrow> target_resolves sub w)
       \<and> ((\<exists>x. SessionSet resetPasswordUsernameSessionKey x \<in> set (new_events w w'))
            \<longleftrightarrow> target_resolves sub w)
       \<and> ((\<exists>s. CommitSession s \<in> set (new_events w w')) \<longleftrightarrow> target_resolves sub w)
       \<and> ((\<exists>c. GetSession c \<in> set (new_events w w')) \<longleftrightarrow> target_resolves sub w)
       \<and> ((\<exists>r c. res = Inr r \<and> map_of (headers r) ''set-cookie'' = Some c)
            \<longleftrightarrow> target_resolves sub w)
       \<and> (\<forall>k x. SessionSet k x \<in> set (new_events w w') \<longrightarrow>
             k = ''resetPasswordUsername'' \<and>
             (\<exists>u. resolved_account sub w = Some u \<and> x = username u))
       \<and> (\<forall>s. CommitSession s \<in> set (new_events w w') \<longrightarrow>
             (\<exists>u. resolved_account sub w = Some u \<and>
                  map_of s ''resetPasswordUsername'' = Some (username u)))
       \<and> (\<forall>r c. res = Inr r \<and> map_of (headers r) ''set-cookie'' = Some c \<longrightarrow>
             (\<exists>s. CommitSession s \<in> set (new_events w w') \<and> c = commitSession st s))"
proof (cases "submission_value sub")
  case None
  then show ?thesis
    using handleVerification_absent [OF None, of st req w] run
    by (auto simp: target_resolves_def resolved_account_def)
next
  case (Some v)
  show ?thesis
  proof (cases "find (user_matches (target v)) (users w)")
    case None
    then show ?thesis
      using handleVerification_not_found [OF Some None, of st req] run
      by (auto simp: target_resolves_def resolved_account_def Some json_def)
  next
    case found: (Some u)
    let ?s = "AList.update ''resetPasswordUsername'' (username u)
                (getSession st (req_headers req ''cookie''))"
    have bound: "map_of ?s ''resetPasswordUsername'' = Some (username u)"
      by (simp add: update_conv')
    have res: "res = Inr (redirect ''/reset-password'' [(''set-cookie'', commitSession st ?s)])"
      and ev: "new_events w w' =
                 [UserFindFirst (target v), GetSession (req_headers req ''cookie''),
                  SessionSet ''resetPasswordUsername'' (username u), CommitSession ?s]"
      using handleVerification_found [OF Some found, of st req] run
      by (auto simp: resetPasswordUsernameSessionKey_def)
    have hdr: "map_of (headers (redirect ''/reset-password''
                 [(''set-cookie'', commitSession st ?s)]) :: (string \<times> string) list)
                 ''set-cookie'' = Some (commitSession st ?s)"
      by (simp add: redirect_def)
    have acc: "resolved_account sub w = Some u" and yes: "target_resolves sub w"
      by (simp_all add: resolved_account_def target_resolves_def Some found)
    show ?thesis
      unfolding res ev
      using bound hdr acc yes
      by (auto simp: resetPasswordUsernameSessionKey_def)
  qed
qed

text \<open>
  The target alice resolves: the committed session binds the key to her username and
  its cookie is the \<^verbatim>\<open>set-cookie\<close> header. The target ghost does not resolve: no
  header and no committed session.
\<close>

theorem session_iff_resolved_witness:
  "target_resolves (verifiedSubmission ''alice'') aliceStore
   \<and> (\<exists>s r. CommitSession s \<in> set (new_events aliceStore
                  (snd (snd (handleVerification plainSessionStorage (requestWithCookie None)
                     (verifiedSubmission ''alice'') aliceStore))))
           \<and> map_of s ''resetPasswordUsername'' = Some ''alice''
           \<and> fst (handleVerification plainSessionStorage (requestWithCookie None)
                  (verifiedSubmission ''alice'') aliceStore) = Inr r
           \<and> map_of (headers r) ''set-cookie'' = Some (commitSession plainSessionStorage s))
   \<and> \<not> target_resolves (verifiedSubmission ''ghost@example.com'') aliceStore
   \<and> \<not> (\<exists>r c. fst (handleVerification plainSessionStorage (requestWithCookie None)
                  (verifiedSubmission ''ghost@example.com'') aliceStore) = Inr r
             \<and> map_of (headers r) ''set-cookie'' = Some c)
   \<and> \<not> (\<exists>s. CommitSession s \<in> set (new_events aliceStore
                  (snd (snd (handleVerification plainSessionStorage (requestWithCookie None)
                     (verifiedSubmission ''ghost@example.com'') aliceStore)))))"
proof -
  have acc: "resolved_account (verifiedSubmission ''alice'') aliceStore
               = Some \<lparr>email = ''alice@example.com'', username = ''alice''\<rparr>"
    by (simp add: resolved_account_def verifiedSubmission_value aliceStore_find_alice)
  have yes: "target_resolves (verifiedSubmission ''alice'') aliceStore"
    by (simp add: target_resolves_def verifiedSubmission_value aliceStore_find_alice)
  have no: "\<not> target_resolves (verifiedSubmission ''ghost@example.com'') aliceStore"
    by (simp add: target_resolves_def verifiedSubmission_value aliceStore_find_ghost)
  obtain res1 sub1 w1 where run1:
    "handleVerification plainSessionStorage (requestWithCookie None)
       (verifiedSubmission ''alice'') aliceStore = (res1, sub1, w1)"
    by (metis prod_cases3)
  obtain res2 sub2 w2 where run2:
    "handleVerification plainSessionStorage (requestWithCookie None)
       (verifiedSubmission ''ghost@example.com'') aliceStore = (res2, sub2, w2)"
    by (metis prod_cases3)
  note t1 = session_iff_resolved [OF run1]
  note t2 = session_iff_resolved [OF run2]
  from t1 yes obtain u s r where
      "resolved_account (verifiedSubmission ''alice'') aliceStore = Some u"
      "CommitSession s \<in> set (new_events aliceStore w1)"
      "map_of s ''resetPasswordUsername'' = Some (username u)"
      "res1 = Inr r"
      "map_of (headers r) ''set-cookie'' = Some (commitSession plainSessionStorage s)"
    by blast
  then have a: "\<exists>s r. CommitSession s \<in> set (new_events aliceStore w1)
           \<and> map_of s ''resetPasswordUsername'' = Some ''alice''
           \<and> res1 = Inr r
           \<and> map_of (headers r) ''set-cookie'' = Some (commitSession plainSessionStorage s)"
    using acc by auto
  have b: "\<not> (\<exists>r c. res2 = Inr r \<and> map_of (headers r) ''set-cookie'' = Some c)"
          "\<not> (\<exists>s. CommitSession s \<in> set (new_events aliceStore w2))"
    using t2 no by blast+
  show ?thesis
    using yes no a b by (simp add: run1 run2)
qed

text \<open>
  C4. When the submission's validated value is absent, \<^verbatim>\<open>handleVerification\<close>
  throws the error of the invariant check. It is a thrown error and not a response; the
  submission is left as it was (no validation error is marked on it) and the world is
  unchanged: no account lookup and no session call was made.
\<close>

theorem handleVerification_value_absent:
  assumes "submission_value sub = None"
  shows "handleVerification st req sub w =
           (Inl (Error ''submission.value should be defined by now''), sub, w)"
  using assms by (simp add: handleVerification_def invariant_def)

text \<open>
  A submission whose validation failed, so that it has no value.
\<close>

theorem handleVerification_value_absent_witness:
  "handleVerification plainSessionStorage (requestWithCookie None)
     (\<lparr>intent = ''submit'', payload = [], error = [(''target'', ErrString ''Required'')],
       submission_value = None\<rparr> :: verify_value submission) aliceStore =
   (Inl (Error ''submission.value should be defined by now''),
    \<lparr>intent = ''submit'', payload = [], error = [(''target'', ErrString ''Required'')],
      submission_value = None\<rparr>, aliceStore)"
  using handleVerification_value_absent
    [of "\<lparr>intent = ''submit'', payload = [], error = [(''target'', ErrString ''Required'')],
          submission_value = None\<rparr> :: verify_value submission"
        plainSessionStorage "requestWithCookie None" aliceStore]
  by simp

text \<open>
  C5. Frame condition. No run changes the account store. When the target is not found,
  the submission differs from the one passed in only in its error field, the only
  collaborator call is the account lookup (no session is loaded or committed), and the
  response has no \<^verbatim>\<open>set-cookie\<close> header. When the target is found, the submission
  is unchanged, the response carries exactly one \<^verbatim>\<open>set-cookie\<close> header, and the
  collaborator calls are the lookup, one session load, one set and one commit.
\<close>

theorem handleVerification_frame:
  assumes run: "handleVerification st req sub w = (res, sub', w')"
  shows "users w' = users w \<and>
    (\<forall>v. submission_value sub = Some v \<longrightarrow>
      (find (user_matches (target v)) (users w) = None \<longrightarrow>
         sub' = sub\<lparr>error := AList.update ''code'' (ErrString ''Invalid code'') (error sub)\<rparr> \<and>
         new_events w w' = [UserFindFirst (target v)] \<and>
         (\<exists>r. res = Inr r \<and> map_of (headers r) ''set-cookie'' = None)) \<and>
      (\<forall>u. find (user_matches (target v)) (users w) = Some u \<longrightarrow>
         sub' = sub \<and>
         (\<exists>r c. res = Inr r \<and>
            filter (\<lambda>h. fst h = ''set-cookie'') (headers r) = [(''set-cookie'', c)]) \<and>
         new_events w w' =
           [UserFindFirst (target v),
            GetSession (req_headers req ''cookie''),
            SessionSet resetPasswordUsernameSessionKey (username u),
            CommitSession (AList.update resetPasswordUsernameSessionKey (username u)
                             (getSession st (req_headers req ''cookie'')))]))"
proof (cases "submission_value sub")
  case None
  then show ?thesis
    using handleVerification_absent [OF None, of st req w] run by simp
next
  case (Some v)
  show ?thesis
  proof (cases "find (user_matches (target v)) (users w)")
    case None
    then show ?thesis
      using handleVerification_not_found [OF Some None, of st req] run
      by (auto simp: Some json_def)
  next
    case (Some u)
    then show ?thesis
      using handleVerification_found [OF \<open>submission_value sub = Some v\<close> Some, of st req] run
      by (auto simp: \<open>submission_value sub = Some v\<close> redirect_def)
  qed
qed

text \<open>
  Both paths on the store that holds alice.
\<close>

theorem handleVerification_frame_witness:
  "(case handleVerification plainSessionStorage (requestWithCookie None)
          (verifiedSubmission ''ghost@example.com'') aliceStore of
      (res, sub', w') \<Rightarrow>
        users w' = users aliceStore \<and>
        sub' = (verifiedSubmission ''ghost@example.com'')
                 \<lparr>error := [(''code'', ErrString ''Invalid code'')]\<rparr> \<and>
        new_events aliceStore w' = [UserFindFirst ''ghost@example.com''])
   \<and> (case handleVerification plainSessionStorage (requestWithCookie None)
          (verifiedSubmission ''alice'') aliceStore of
      (res, sub', w') \<Rightarrow>
        users w' = users aliceStore \<and>
        sub' = verifiedSubmission ''alice'' \<and>
        new_events aliceStore w' =
          [UserFindFirst ''alice'', GetSession None,
           SessionSet ''resetPasswordUsername'' ''alice'',
           CommitSession [(''resetPasswordUsername'', ''alice'')]])"
proof -
  obtain res1 sub1 w1 where run1:
    "handleVerification plainSessionStorage (requestWithCookie None)
       (verifiedSubmission ''ghost@example.com'') aliceStore = (res1, sub1, w1)"
    by (metis prod_cases3)
  obtain res2 sub2 w2 where run2:
    "handleVerification plainSessionStorage (requestWithCookie None)
       (verifiedSubmission ''alice'') aliceStore = (res2, sub2, w2)"
    by (metis prod_cases3)
  have e: "error (verifiedSubmission ''ghost@example.com'') = []"
    by (simp add: verifiedSubmission_def)
  have g: "getSession plainSessionStorage None = []"
    by (simp add: plainSessionStorage_def)
  have c: "req_headers (requestWithCookie None) ''cookie'' = None"
    by (simp add: requestWithCookie_def)
  show ?thesis
    using handleVerification_frame [OF run1] handleVerification_frame [OF run2]
    by (simp add: run1 run2 verifiedSubmission_value aliceStore_find_alice
          aliceStore_find_ghost e g c resetPasswordUsernameSessionKey_def)
qed

text \<open>
  C6. Session isolation. On the success path the handler sets no session key other
  than \<^verbatim>\<open>resetPasswordUsername\<close>, and every other key has, in the session parsed
  back from the committed cookie, the binding it had in the session parsed from the
  request's cookie. The session storage is assumed to return, for a cookie it committed,
  a session with the same bindings.
\<close>

theorem handleVerification_session_isolation:
  assumes val: "submission_value sub = Some v"
      and found: "find (user_matches (target v)) (users w) = Some u"
      and rt: "\<forall>s. map_of (getSession st (Some (commitSession st s))) = map_of s"
      and run: "handleVerification st req sub w = (res, sub', w')"
  shows "(\<forall>k x. SessionSet k x \<in> set (new_events w w') \<longrightarrow> k = ''resetPasswordUsername'') \<and>
         (\<exists>r c. res = Inr r \<and> map_of (headers r) ''set-cookie'' = Some c \<and>
            (\<forall>k. k \<noteq> ''resetPasswordUsername'' \<longrightarrow>
               map_of (getSession st (Some c)) k =
               map_of (getSession st (req_headers req ''cookie'')) k))"
proof -
  let ?s = "AList.update resetPasswordUsernameSessionKey (username u)
              (getSession st (req_headers req ''cookie''))"
  have "map_of (getSession st (Some (commitSession st ?s))) = map_of ?s"
    using rt by blast
  then have keep: "\<forall>k. k \<noteq> ''resetPasswordUsername'' \<longrightarrow>
      map_of (getSession st (Some (commitSession st ?s))) k =
      map_of (getSession st (req_headers req ''cookie'')) k"
    by (simp add: update_conv' resetPasswordUsernameSessionKey_def)
  show ?thesis
    using handleVerification_found [OF val found, of st req] run keep
    by (auto simp: redirect_def resetPasswordUsernameSessionKey_def)
qed

text \<open>
  A request whose cookie already holds \<^verbatim>\<open>onboardingEmail\<close>: the key is still
  bound in the cookie the handler commits.
\<close>

theorem handleVerification_session_isolation_witness:
  "\<exists>r c. fst (handleVerification plainSessionStorage
               (requestWithCookie
                  (Some (commitSession plainSessionStorage
                     [(''onboardingEmail'', ''alice@example.com'')])))
               (verifiedSubmission ''alice'') aliceStore) = Inr r
     \<and> map_of (headers r) ''set-cookie'' = Some c
     \<and> map_of (getSession plainSessionStorage (Some c)) ''onboardingEmail''
          = Some ''alice@example.com''"
proof -
  let ?req = "requestWithCookie
                (Some (commitSession plainSessionStorage
                   [(''onboardingEmail'', ''alice@example.com'')]))"
  have rt: "\<forall>s. map_of (getSession plainSessionStorage
                (Some (commitSession plainSessionStorage s))) = map_of s"
    by (simp add: plainSessionStorage_roundtrip)
  have inc: "getSession plainSessionStorage (req_headers ?req ''cookie'')
               = [(''onboardingEmail'', ''alice@example.com'')]"
    by (simp add: requestWithCookie_def plainSessionStorage_roundtrip)
  obtain res sub' w' where run:
    "handleVerification plainSessionStorage ?req (verifiedSubmission ''alice'') aliceStore
       = (res, sub', w')"
    by (metis prod_cases3)
  have found: "find (user_matches (target \<lparr>target = ''alice''\<rparr>)) (users aliceStore)
                 = Some \<lparr>email = ''alice@example.com'', username = ''alice''\<rparr>"
    by (simp add: aliceStore_find_alice)
  from handleVerification_session_isolation [OF verifiedSubmission_value found rt run]
  obtain r c where rc: "res = Inr r" "map_of (headers r) ''set-cookie'' = Some c"
      "\<forall>k. k \<noteq> ''resetPasswordUsername'' \<longrightarrow>
         map_of (getSession plainSessionStorage (Some c)) k =
         map_of (getSession plainSessionStorage (req_headers ?req ''cookie'')) k"
    by blast
  have "map_of (getSession plainSessionStorage (Some c)) ''onboardingEmail''
          = Some ''alice@example.com''"
    using rc(3) inc by simp
  then show ?thesis using rc run by simp
qed

text \<open>
  C7. Idempotence of the error path. When the target of a submission matches no
  account, calling \<^verbatim>\<open>handleVerification\<close> a second time, with the submission as
  it was first passed or as the first call left it, on a world with the same
  account store, returns the same response and leaves the same submission: status 400
  and the error code \<^verbatim>\<open>Invalid code\<close> both times.
\<close>

theorem handleVerification_error_idempotent:
  assumes val: "submission_value sub = Some v"
      and none: "\<forall>u\<in>set (users w). email u \<noteq> target v \<and> username u \<noteq> target v"
      and run1: "handleVerification st req sub w = (res1, sub1, w1)"
      and again: "subB = sub \<or> subB = sub1"
      and same_store: "users wB = users w"
      and run2: "handleVerification st req subB wB = (res2, sub2, w2)"
  shows "res2 = res1 \<and> sub2 = sub1 \<and>
         (\<exists>r. res1 = Inr r \<and> status r = 400 \<and> body r = Some (ActionData ''error'' sub1)) \<and>
         map_of (error sub1) ''code'' = Some (ErrString ''Invalid code'')"
proof -
  have f: "find (user_matches (target v)) (users w) = None"
    using none by (rule find_matches_None)
  have r1: "sub1 = sub\<lparr>error := AList.update ''code'' (ErrString ''Invalid code'') (error sub)\<rparr>"
       "res1 = Inr (json (ActionData ''error'' sub1) (Some 400))"
    using handleVerification_not_found [OF val f, of st req] run1 by auto
  have valB: "submission_value subB = Some v"
    using again val r1 by auto
  have fB: "find (user_matches (target v)) (users wB) = None"
    using f same_store by simp
  have upd: "subB\<lparr>error := AList.update ''code'' (ErrString ''Invalid code'') (error subB)\<rparr> = sub1"
    using again r1 by auto
  have r2: "sub2 = sub1" "res2 = Inr (json (ActionData ''error'' sub1) (Some 400))"
    using handleVerification_not_found [OF valB fB, of st req] run2 upd by auto
  show ?thesis
    using r1 r2 by (simp add: json_def update_conv')
qed

text \<open>
  The target ghost twice in a row, the second call on the submission and the world
  the first call left.
\<close>

theorem handleVerification_error_idempotent_witness:
  "(case handleVerification plainSessionStorage (requestWithCookie None)
          (verifiedSubmission ''ghost@example.com'') aliceStore of
      (res1, sub1, w1) \<Rightarrow>
        (case handleVerification plainSessionStorage (requestWithCookie None) sub1 w1 of
           (res2, sub2, w2) \<Rightarrow>
             res2 = res1 \<and> sub2 = sub1 \<and>
             map_of (error sub2) ''code'' = Some (ErrString ''Invalid code'')))"
proof -
  obtain res1 sub1 w1 where run1:
    "handleVerification plainSessionStorage (requestWithCookie None)
       (verifiedSubmission ''ghost@example.com'') aliceStore = (res1, sub1, w1)"
    by (metis prod_cases3)
  obtain res2 sub2 w2 where run2:
    "handleVerification plainSessionStorage (requestWithCookie None) sub1 w1 = (res2, sub2, w2)"
    by (metis prod_cases3)
  have none: "\<forall>u\<in>set (users aliceStore).
      email u \<noteq> target \<lparr>target = ''ghost@example.com''\<rparr> \<and>
      username u \<noteq> target \<lparr>target = ''ghost@example.com''\<rparr>"
    by (simp add: aliceStore_def)
  have ghost: "find (user_matches (target \<lparr>target = ''ghost@example.com''\<rparr>))
                   (users aliceStore) = None"
    by (simp add: aliceStore_find_ghost)
  have same: "users w1 = users aliceStore"
    using run1 handleVerification_not_found [OF verifiedSubmission_value ghost,
                 of plainSessionStorage "requestWithCookie None"]
    by auto
  have again: "sub1 = verifiedSubmission ''ghost@example.com'' \<or> sub1 = sub1" by simp
  show ?thesis
    using handleVerification_error_idempotent
            [OF verifiedSubmission_value none run1 again same run2]
    by (simp add: run1 run2)
qed

text \<open>
  C8. For every form submission that passes schema validation (the parser returns a
  submission whose value is present) with intent \<^verbatim>\<open>submit\<close> and a non-empty
  password, \<^verbatim>\<open>action\<close> throws the error \<^verbatim>\<open>This has not yet been implemented\<close>:
  it returns no response, and the world (the account store included) is unchanged.
\<close>

theorem action_submit_unimplemented:
  assumes "parse (req_formData req) = Inr sub"
      and "intent sub = ''submit''"
      and "submission_value sub = Some v"
      and "password v \<noteq> []"
  shows "action parse req w = (Inl (Error ''This has not yet been implemented''), w)"
  using assms by (simp add: action_def Let_def)

text \<open>
  A valid form: two equal passwords of thirteen characters.
\<close>

theorem action_submit_unimplemented_witness:
  "action scenarioParse (formRequest validForm) aliceStore =
   (Inl (Error ''This has not yet been implemented''), aliceStore)"
proof -
  let ?v = "\<lparr>password = ''correct horse'', confirmPassword = ''correct horse''\<rparr>"
  let ?sub = "\<lparr>intent = ''submit'', payload = validForm, error = [],
              submission_value = Some ?v\<rparr>"
  have p: "scenarioParse (req_formData (formRequest validForm)) = Inr ?sub"
    by (simp add: scenarioParse_def formRequest_def validForm_def validateForm_def
          mismatchForm_def)
  have i: "intent ?sub = ''submit''" by simp
  have v: "submission_value ?sub = Some ?v" by simp
  have n: "password ?v \<noteq> []" by simp
  show ?thesis
    using action_submit_unimplemented
            [of scenarioParse "formRequest validForm" ?sub ?v aliceStore] p i v n
    by blast
qed

text \<open>
  C9. The loader takes neither the request nor a session; for every world it returns
  status 200 with the constant \<^verbatim>\<open>get this from the session\<close> as
  \<^verbatim>\<open>resetPasswordUsername\<close>, and it leaves the world (store and trace) unchanged.
\<close>

theorem loader_placeholder:
  "loader w =
     (\<lparr>status = 200,
       headers = [(''content-type'', ''application/json; charset=utf-8'')],
       body = Some (LoaderData ''get this from the session'')\<rparr>, w)"
  by (simp add: loader_def json_def)

text \<open>
  C10. For every submission the parser returns, \<^verbatim>\<open>action\<close> leaves the world
  unchanged. With an intent other than \<^verbatim>\<open>submit\<close> it returns status 200 with the
  body status \<^verbatim>\<open>idle\<close>; with the intent \<^verbatim>\<open>submit\<close> and no value, or a value
  whose password is empty, it returns status 400 with the body status \<^verbatim>\<open>error\<close>;
  and it throws exactly when the intent is \<^verbatim>\<open>submit\<close> and the value holds a
  non-empty password, and then the error is the unimplemented one.
\<close>

theorem action_outcomes:
  assumes run: "action parse req w = (res, w')"
      and sub: "parse (req_formData req) = Inr sub"
  shows "w' = w \<and>
    (intent sub \<noteq> ''submit'' \<longrightarrow>
       res = Inr \<lparr>status = 200,
                  headers = [(''content-type'', ''application/json; charset=utf-8'')],
                  body = Some (ActionData ''idle'' sub)\<rparr>) \<and>
    (intent sub = ''submit'' \<and>
       (submission_value sub = None \<or> (\<exists>v. submission_value sub = Some v \<and> password v = [])) \<longrightarrow>
       res = Inr \<lparr>status = 400,
                  headers = [(''content-type'', ''application/json; charset=utf-8'')],
                  body = Some (ActionData ''error'' sub)\<rparr>) \<and>
    ((\<exists>e. res = Inl e) \<longleftrightarrow>
       intent sub = ''submit'' \<and> (\<exists>v. submission_value sub = Some v \<and> password v \<noteq> [])) \<and>
    (\<forall>e. res = Inl e \<longrightarrow> e = Error ''This has not yet been implemented'')"
  using run sub
  by (auto simp: action_def Let_def json_def split: if_splits option.splits)

text \<open>
  A field validation intent, a submit whose passwords differ, and a valid submit.
\<close>

theorem action_outcomes_witness:
  "(\<exists>r. action scenarioParse (formRequest validateForm) aliceStore = (Inr r, aliceStore)
        \<and> status r = 200
        \<and> map_option status_field (body r) = Some ''idle'')
   \<and> (\<exists>r. action scenarioParse (formRequest mismatchForm) aliceStore = (Inr r, aliceStore)
        \<and> status r = 400
        \<and> map_option status_field (body r) = Some ''error'')
   \<and> action scenarioParse (formRequest validForm) aliceStore
        = (Inl (Error ''This has not yet been implemented''), aliceStore)"
proof -
  obtain res1 w1 where run1: "action scenarioParse (formRequest validateForm) aliceStore = (res1, w1)"
    by (metis prod.exhaust)
  obtain res2 w2 where run2: "action scenarioParse (formRequest mismatchForm) aliceStore = (res2, w2)"
    by (metis prod.exhaust)
  obtain res3 w3 where run3: "action scenarioParse (formRequest validForm) aliceStore = (res3, w3)"
    by (metis prod.exhaust)
  let ?e = "[(''confirmPassword'', ErrList [''The passwords did not match''])]"
  let ?s1 = "\<lparr>intent = ''validate/confirmPassword'', payload = mismatchForm, error = ?e,
             submission_value = None :: reset_value option\<rparr>"
  let ?s2 = "\<lparr>intent = ''submit'', payload = mismatchForm, error = ?e,
             submission_value = None :: reset_value option\<rparr>"
  let ?s3 = "\<lparr>intent = ''submit'', payload = validForm, error = [],
             submission_value =
               Some \<lparr>password = ''correct horse'', confirmPassword = ''correct horse''\<rparr>\<rparr>"
  have p1: "scenarioParse (req_formData (formRequest validateForm)) = Inr ?s1"
    by (simp add: scenarioParse_def formRequest_def)
  have p2: "scenarioParse (req_formData (formRequest mismatchForm)) = Inr ?s2"
    by (simp add: scenarioParse_def formRequest_def validateForm_def mismatchForm_def)
  have p3: "scenarioParse (req_formData (formRequest validForm)) = Inr ?s3"
    by (simp add: scenarioParse_def formRequest_def validForm_def validateForm_def
          mismatchForm_def)
  show ?thesis
    using action_outcomes [OF run1 p1] action_outcomes [OF run2 p2]
          action_outcomes [OF run3 p3]
    by (auto simp: run1 run2 run3)
qed

end
